theory Spec2Isabelle
  imports Complex_Main
begin

section \<open>The CSV upload session of \<open>src/containers/CSVUploader/index.jsx\<close>\<close>

text \<open>
  The component keeps its session in \<open>this.state\<close> and changes it only through
  \<open>setState\<close>, which merges the given keys into the state. Every handler is modelled as
  a function from the state before to the state after; \<open>setState\<close> is a record update.
  An \<open>async\<close> handler is cut at each \<open>await\<close>: the part before it (\<open>_begin\<close>) and the
  continuation that runs when the awaited promise settles, so that other handlers can be
  run in between. \<open>setState\<close> is taken to have merged its keys before the next read of
  \<open>this.state\<close>; the one read that follows a \<open>setState\<close> in the same turn (the request
  built in \<open>onSave\<close>) reads keys that \<open>setState\<close> did not write.
\<close>

subsection \<open>Data\<close>

text \<open>The \<open>state\<close> key: \<open>"idle"\<close>, \<open>"parsing"\<close>, \<open>"parsed"\<close>, \<open>"uploading"\<close>.\<close>

datatype phase = Idle | Parsing | Parsed | Uploading

text \<open>
  The \<open>errors\<close> key holds \<open>this.props.initialError\<close> at first (a string, or
  \<open>undefined\<close> when the prop is not given), later \<open>null\<close> or an array of messages.
\<close>

datatype errors_value = Undefined | Null | Str string | Arr "string list"

text \<open>
  A JavaScript number as far as \<open>uploadProgress\<close> needs it: \<open>NaN\<close> (from \<open>0 / 0\<close>),
  \<open>Infinity\<close> (from \<open>n / 0\<close>) or a finite value. Finite values are exact rationals,
  where the code has doubles: for \<open>loaded \<le> total\<close> below \<open>2^53\<close> the double quotient
  rounds to the same integer as the exact one, and the quotients evaluated below are
  exactly representable.
\<close>

datatype jsnum = NaN | Infinity | Num rat

text \<open>One entry of the \<open>columnConfig\<close> prop (the callbacks are used by \<open>parseCSV\<close> only).\<close>

record column_spec =
  inputName :: string
  aliases :: "string list"
  apiName :: string
  required :: bool
  description :: string

text \<open>
  \<open>this.state\<close>; \<open>fields_val\<close> is its \<open>fields\<close> key. \<open>None\<close> is \<open>null\<close>; for
  \<open>fileName\<close> and \<open>uploadProgress\<close>, which the constructor does not set, it is
  \<open>undefined\<close>.
\<close>

record ('row, 'stats) session =
  state :: phase
  errors :: errors_value
  uploadError :: "string option"
  parsedData :: "'row list option"
  validationStats :: "'stats option"
  fields_val :: "string list option"
  fileName :: "string option"
  uploadProgress :: "jsnum option"

text \<open>What \<open>parseCSV\<close> resolves to, as \<open>onPickCSV\<close> destructures it.\<close>

record ('row, 'stats) parse_result =
  pr_data :: "'row list"
  pr_fields :: "string list option"
  pr_validationStats :: "'stats option"
  pr_fileName :: "string option"
  pr_errors :: "string list"

text \<open>A progress event of the transport: \<open>loaded\<close> and \<open>total\<close> are unsigned integers.\<close>

record progress_event =
  loaded :: nat
  total :: nat

text \<open>
  The value \<open>onUpload\<close> throws or rejects with, as far as the \<open>catch\<close> block reads it.
  Any value can be thrown: \<open>null\<close> and \<open>undefined\<close> have no properties at all; of every
  other value \<open>e.message\<close> can be read, and is the message of an \<open>Error\<close> or
  \<open>undefined\<close> (\<open>None\<close>) where the value has none.
\<close>

datatype thrown_value = NullOrUndefined | Thrown "string option"

datatype upload_outcome = Resolved | Rejected thrown_value

text \<open>The \<open>TypeError\<close> of reading \<open>message\<close> of \<open>null\<close> or \<open>undefined\<close>.\<close>

datatype save_failure = CannotReadMessage

text \<open>A file handed over by the file picker; \<open>parseCSV\<close> alone reads it.\<close>

record csv_file =
  file_name :: string
  file_text :: string

text \<open>What \<open>onPickCSV\<close> does besides \<open>setState\<close>: return early, or call \<open>parseCSV\<close>
  with \<open>acceptedFiles[0]\<close> (\<open>None\<close> when that is \<open>undefined\<close>).\<close>

datatype pick_effect = ReturnedEarly | ParseCSVCalled "csv_file option"

subsection \<open>Constructor\<close>

definition initial :: "string option \<Rightarrow> ('row, 'stats) session" where
  "initial initialError =
     \<lparr> state = Idle,
       errors = (case initialError of None \<Rightarrow> Undefined | Some e \<Rightarrow> Str e),
       uploadError = None,
       parsedData = None,
       validationStats = None,
       fields_val = None,
       fileName = None,
       uploadProgress = None \<rparr>"

subsection \<open>onPickCSV\<close>

definition single_file_message :: string where
  "single_file_message = ''Please upload a single CSV file''"

definition no_valid_row_message :: string where
  "no_valid_row_message = ''Please upload at least one valid row.''"

definition first_file :: "csv_file list \<Rightarrow> csv_file option" where
  "first_file acceptedFiles = (case acceptedFiles of [] \<Rightarrow> None | f # _ \<Rightarrow> Some f)"

definition onPickCSV_begin ::
  "csv_file list \<Rightarrow> csv_file list \<Rightarrow> ('row, 'stats) session
     \<Rightarrow> ('row, 'stats) session \<times> pick_effect" where
  "onPickCSV_begin acceptedFiles rejectedFiles s =
     (if length rejectedFiles > 0 \<or> length acceptedFiles + length rejectedFiles > 1
      then (s\<lparr> errors := Arr [single_file_message] \<rparr>, ReturnedEarly)
      else (s\<lparr> errors := Null,
               parsedData := None,
               validationStats := None,
               fields_val := None,
               state := Parsing \<rparr>,
            ParseCSVCalled (first_file acceptedFiles)))"

definition onPickCSV_resume ::
  "('row, 'stats) parse_result \<Rightarrow> ('row, 'stats) session \<Rightarrow> ('row, 'stats) session" where
  "onPickCSV_resume r s =
     (if length (pr_errors r) \<noteq> 0
      then s\<lparr> state := Parsed,
              validationStats := pr_validationStats r,
              errors := Arr (pr_errors r),
              fields_val := pr_fields r \<rparr>
      else s\<lparr> state := Parsed,
              validationStats := pr_validationStats r,
              fields_val := pr_fields r,
              fileName := pr_fileName r,
              parsedData := Some (pr_data r),
              errors := (if length (pr_data r) > 0 then Arr []
                         else Arr [no_valid_row_message]) \<rparr>)"

subsection \<open>onDelete\<close>

definition onDelete :: "('row, 'stats) session \<Rightarrow> ('row, 'stats) session" where
  "onDelete s =
     s\<lparr> errors := Null,
        uploadError := None,
        parsedData := None,
        validationStats := None,
        fields_val := None,
        state := Idle \<rparr>"

subsection \<open>onSave\<close>

text \<open>\<open>Math.round\<close>: the nearest integer, a tie going up.\<close>

definition math_round :: "jsnum \<Rightarrow> jsnum" where
  "math_round x = (case x of Num q \<Rightarrow> Num (of_int \<lfloor>q + 1 / 2\<rfloor>) | _ \<Rightarrow> x)"

text \<open>\<open>progressEvent.loaded / progressEvent.total\<close>.\<close>

definition js_quotient :: "nat \<Rightarrow> nat \<Rightarrow> jsnum" where
  "js_quotient l t =
     (if t = 0 then (if l = 0 then NaN else Infinity)
      else Num (of_nat l / of_nat t))"

definition onSave_begin :: "('row, 'stats) session \<Rightarrow> ('row, 'stats) session" where
  "onSave_begin s =
     s\<lparr> state := Uploading, uploadError := None, uploadProgress := Some (Num 0) \<rparr>"

text \<open>The request handed to \<open>onUpload\<close>, read from the state after the first \<open>setState\<close>.\<close>

record 'row upload_request =
  data :: "'row list option"
  req_fileName :: "string option"

definition upload_request_of :: "('row, 'stats) session \<Rightarrow> 'row upload_request" where
  "upload_request_of s = \<lparr> data = parsedData s, req_fileName = fileName s \<rparr>"

text \<open>The arrow function stored under the request's \<open>onUploadProgress\<close> key.\<close>

definition onUploadProgress ::
  "progress_event \<Rightarrow> ('row, 'stats) session \<Rightarrow> ('row, 'stats) session" where
  "onUploadProgress progressEvent s =
     (if state s = Uploading
      then (let percentCompleted = math_round (js_quotient (loaded progressEvent) (total progressEvent))
            in s\<lparr> uploadProgress := Some percentCompleted \<rparr>)
      else s)"

definition onSave_resolved :: "('row, 'stats) session \<Rightarrow> ('row, 'stats) session" where
  "onSave_resolved s =
     s\<lparr> state := Idle,
        errors := Null,
        uploadError := None,
        parsedData := None,
        validationStats := None,
        fields_val := None \<rparr>"

text \<open>
  The \<open>catch\<close> block. The argument of its \<open>setState\<close> is evaluated first: where reading
  \<open>e.message\<close> throws, \<open>setState\<close> is not called, the state stays as it is and the
  \<open>TypeError\<close> leaves \<open>onSave\<close> (\<open>Inl\<close>, with the state left behind).
\<close>

definition onSave_catch ::
  "thrown_value \<Rightarrow> ('row, 'stats) session
     \<Rightarrow> (save_failure \<times> ('row, 'stats) session) + ('row, 'stats) session" where
  "onSave_catch e s =
     (case e of
        NullOrUndefined \<Rightarrow> Inl (CannotReadMessage, s)
      | Thrown m \<Rightarrow> Inr (s\<lparr> state := Parsed, uploadError := m \<rparr>))"

text \<open>
  The \<open>try\<close> block once \<open>onUpload\<close> has settled: a rejection (or a throw) leaves it
  with the error, a fulfilment runs the \<open>setState\<close> that follows the \<open>await\<close>.
\<close>

definition onSave_try ::
  "upload_outcome \<Rightarrow> ('row, 'stats) session \<Rightarrow> thrown_value + ('row, 'stats) session" where
  "onSave_try outcome s =
     (case outcome of Rejected e \<Rightarrow> Inl e | Resolved \<Rightarrow> Inr (onSave_resolved s))"

text \<open>
  \<open>try { ... } catch (e) { ... }\<close>: what the promise returned by \<open>onSave\<close> settles to,
  \<open>Inl\<close> an error that leaves \<open>onSave\<close> (the promise rejects), \<open>Inr\<close> the state after a
  normal completion.
\<close>

definition onSave_settled ::
  "upload_outcome \<Rightarrow> ('row, 'stats) session
     \<Rightarrow> (save_failure \<times> ('row, 'stats) session) + ('row, 'stats) session" where
  "onSave_settled outcome s =
     (case onSave_try outcome s of Inl e \<Rightarrow> onSave_catch e s | Inr s' \<Rightarrow> Inr s')"

text \<open>
  One whole call of \<open>onSave\<close>: the transport reports the progress events \<open>evs\<close> in order
  and then settles with \<open>outcome\<close>. The events are those delivered after \<open>onUpload\<close> has
  returned its promise, when the first \<open>setState\<close> has been applied; an event reported
  during the call of \<open>onUpload\<close> itself would still read the state before it.
\<close>

definition onSave ::
  "progress_event list \<Rightarrow> upload_outcome \<Rightarrow> ('row, 'stats) session
     \<Rightarrow> (save_failure \<times> ('row, 'stats) session) + ('row, 'stats) session" where
  "onSave evs outcome s =
     onSave_settled outcome (foldl (\<lambda>t ev. onUploadProgress ev t) (onSave_begin s) evs)"

subsection \<open>render\<close>

text \<open>\<open>_.partition(this.props.columnConfig, "required")\<close>.\<close>

definition requiredColumns :: "column_spec list \<Rightarrow> column_spec list" where
  "requiredColumns columnConfig = filter required columnConfig"

definition optionalColumns :: "column_spec list \<Rightarrow> column_spec list" where
  "optionalColumns columnConfig = filter (\<lambda>c. \<not> required c) columnConfig"

text \<open>\<open>columnIsPresent\<close>: \<open>None\<close> is the \<open>null\<close> returned while there are no fields.\<close>

definition columnIsPresent :: "('row, 'stats) session \<Rightarrow> string \<Rightarrow> bool option" where
  "columnIsPresent s name =
     (case fields_val s of None \<Rightarrow> None | Some fs \<Rightarrow> Some (name \<in> set fs))"

text \<open>Whether \<open>this.state.errors && this.state.errors.length\<close> is truthy.\<close>

fun errors_truthy :: "errors_value \<Rightarrow> bool" where
  "errors_truthy Undefined = False"
| "errors_truthy Null = False"
| "errors_truthy (Str e) = (length e \<noteq> 0)"
| "errors_truthy (Arr es) = (length es \<noteq> 0)"

definition canSaveAndContinue :: "column_spec list \<Rightarrow> ('row, 'stats) session \<Rightarrow> bool" where
  "canSaveAndContinue columnConfig s =
     (\<not> errors_truthy (errors s) \<and>
      state s \<noteq> Uploading \<and>
      list_all (\<lambda>c. columnIsPresent s (inputName c) = Some True) (requiredColumns columnConfig))"

text \<open>\<open>this.state.errors && this.state.errors.slice(0, 9)\<close>.\<close>

fun slice_0_9 :: "errors_value \<Rightarrow> errors_value" where
  "slice_0_9 Undefined = Undefined"
| "slice_0_9 Null = Null"
| "slice_0_9 (Str e) = (if e = [] then Str e else Str (take 9 e))"
| "slice_0_9 (Arr es) = Arr (take 9 es)"

definition validationErrors :: "('row, 'stats) session \<Rightarrow> errors_value" where
  "validationErrors s = slice_0_9 (errors s)"

text \<open>The local \<open>errors\<close> of \<open>render\<close>; an empty \<open>uploadError\<close> is falsy.\<close>

definition render_errors :: "('row, 'stats) session \<Rightarrow> errors_value" where
  "render_errors s =
     (case uploadError s of
        None \<Rightarrow> validationErrors s
      | Some u \<Rightarrow> if u \<noteq> [] then Arr [u] else validationErrors s)"

text \<open>
  \<open>x && x.length\<close> as the operand of the subtraction: \<open>None\<close> is \<open>NaN\<close> (from
  \<open>undefined\<close>); \<open>null\<close> and the empty string count as 0.
\<close>

fun length_operand :: "errors_value \<Rightarrow> int option" where
  "length_operand Undefined = None"
| "length_operand Null = Some 0"
| "length_operand (Str e) = Some (int (length e))"
| "length_operand (Arr es) = Some (int (length es))"

definition allErrorLength :: "('row, 'stats) session \<Rightarrow> int option" where
  "allErrorLength s = length_operand (errors s)"

definition visibleErrors :: "('row, 'stats) session \<Rightarrow> int option" where
  "visibleErrors s = length_operand (validationErrors s)"

definition rest :: "('row, 'stats) session \<Rightarrow> int option" where
  "rest s =
     (case (allErrorLength s, visibleErrors s) of
        (Some a, Some v) \<Rightarrow> Some (a - v)
      | _ \<Rightarrow> None)"

text \<open>
  The messages rendered, one \<open>div\<close> each. A non-empty string has a length but no
  \<open>map\<close>, so rendering it throws.
\<close>

datatype render_failure = TypeError

definition error_divs :: "('row, 'stats) session \<Rightarrow> render_failure + string list" where
  "error_divs s =
     (case render_errors s of
        Arr es \<Rightarrow> Inr es
      | Str e \<Rightarrow> if length e \<noteq> 0 then Inl TypeError else Inr []
      | _ \<Rightarrow> Inr [])"

text \<open>The count in \<open>...and {rest} more rows with errors\<close>, when that line is rendered.\<close>

definition overflow_line :: "('row, 'stats) session \<Rightarrow> int option" where
  "overflow_line s =
     (case rest s of None \<Rightarrow> None | Some n \<Rightarrow> if n \<noteq> 0 then Some n else None)"

text \<open>Which controls \<open>render\<close> puts on the page.\<close>

definition filePickerShown :: "('row, 'stats) session \<Rightarrow> bool" where
  "filePickerShown s = (state s = Idle)"

definition validationStatsShown :: "('row, 'stats) session \<Rightarrow> bool" where
  "validationStatsShown s = (state s = Parsed \<or> state s = Uploading)"

definition canDelete :: "('row, 'stats) session \<Rightarrow> bool" where
  "canDelete s = (state s = Parsed)"

definition uploadButtonShown :: "('row, 'stats) session \<Rightarrow> bool" where
  "uploadButtonShown s = (state s = Uploading \<or> state s = Parsed)"

text \<open>
  The button's \<open>onClick\<close>, \<open>() => canSaveAndContinue && this.onSave()\<close>: \<open>None\<close> when
  \<open>onSave\<close> is not called, else the state once \<open>onSave\<close> has reached its \<open>await\<close>.
\<close>

definition onClick ::
  "column_spec list \<Rightarrow> ('row, 'stats) session \<Rightarrow> ('row, 'stats) session option" where
  "onClick columnConfig s =
     (if canSaveAndContinue columnConfig s then Some (onSave_begin s) else None)"

text \<open>The number in \<open>Uploading: ...%\<close>, \<open>this.state.uploadProgress * 100\<close>.\<close>

definition progress_percent :: "('row, 'stats) session \<Rightarrow> jsnum option" where
  "progress_percent s =
     (if state s = Uploading
      then (case uploadProgress s of
              None \<Rightarrow> Some NaN
            | Some (Num q) \<Rightarrow> Some (Num (q * 100))
            | Some x \<Rightarrow> Some x)
      else None)"

subsection \<open>Sessions that can arise\<close>

text \<open>
  Every state the component can be in: the constructor's, and from there any handler or
  continuation of a handler, in any order. No guard of the page is assumed, so a
  continuation may run late.
\<close>

inductive reachable :: "('row, 'stats) session \<Rightarrow> bool" where
  constructed: "reachable (initial initialError)"
| picked: "reachable s \<Longrightarrow> reachable (fst (onPickCSV_begin acceptedFiles rejectedFiles s))"
| parse_settled: "reachable s \<Longrightarrow> reachable (onPickCSV_resume r s)"
| deleted: "reachable s \<Longrightarrow> reachable (onDelete s)"
| save_begun: "reachable s \<Longrightarrow> reachable (onSave_begin s)"
| progressed: "reachable s \<Longrightarrow> reachable (onUploadProgress progressEvent s)"
| save_settled: "reachable s \<Longrightarrow> onSave_settled outcome s = Inr s' \<Longrightarrow> reachable s'"
| save_threw: "reachable s \<Longrightarrow> onSave_settled outcome s = Inl (e, s') \<Longrightarrow> reachable s'"

subsection \<open>Example inputs\<close>

text \<open>
  Concrete values used where a property is run on an input: rows are lists of
  (\<open>apiName\<close>, value) pairs, the statistics are a row count.
\<close>

abbreviation email_column :: column_spec where
  "email_column \<equiv>
     \<lparr> inputName = ''email'', aliases = [''Email''], apiName = ''email'', required = True,
       description = ''Email address'' \<rparr>"

abbreviation file_a :: csv_file where
  "file_a \<equiv> \<lparr> file_name = ''a.csv'', file_text = ''email,a@example.com'' \<rparr>"

abbreviation file_b :: csv_file where
  "file_b \<equiv> \<lparr> file_name = ''b.csv'', file_text = ''email,b@example.com'' \<rparr>"

abbreviation row_a :: "(string \<times> string) list" where
  "row_a \<equiv> [(''email'', ''a@example.com'')]"

abbreviation row_b :: "(string \<times> string) list" where
  "row_b \<equiv> [(''email'', ''b@example.com'')]"

abbreviation result_a :: "((string \<times> string) list, nat) parse_result" where
  "result_a \<equiv>
     \<lparr> pr_data = [row_a], pr_fields = Some [''email''], pr_validationStats = Some 1,
       pr_fileName = Some ''a.csv'', pr_errors = [] \<rparr>"

abbreviation result_b :: "((string \<times> string) list, nat) parse_result" where
  "result_b \<equiv>
     \<lparr> pr_data = [row_b], pr_fields = Some [''email''], pr_validationStats = Some 1,
       pr_fileName = Some ''b.csv'', pr_errors = [] \<rparr>"

abbreviation session_0 :: "((string \<times> string) list, nat) session" where
  "session_0 \<equiv> initial None"

text \<open>The session after file A has been selected and parsed.\<close>

abbreviation session_parsed_a :: "((string \<times> string) list, nat) session" where
  "session_parsed_a \<equiv>
     onPickCSV_resume result_a (fst (onPickCSV_begin [file_a] [] session_0))"

text \<open>A parsed session whose header lacks the required column although its rows are valid.\<close>

abbreviation session_without_email :: "((string \<times> string) list, nat) session" where
  "session_without_email \<equiv>
     \<lparr> state = Parsed, errors = Arr [], uploadError = None,
       parsedData = Some [[(''name'', ''Jane'')], [(''name'', ''Joe'')]],
       validationStats = Some 2, fields_val = Some [''name''], fileName = Some ''a.csv'',
       uploadProgress = None \<rparr>"

text \<open>A parsed session holding eleven error messages.\<close>

abbreviation eleven_errors :: "string list" where
  "eleven_errors \<equiv>
     [''e1'', ''e2'', ''e3'', ''e4'', ''e5'', ''e6'', ''e7'', ''e8'', ''e9'', ''e10'', ''e11'']"

abbreviation session_with_eleven_errors :: "((string \<times> string) list, nat) session" where
  "session_with_eleven_errors \<equiv>
     \<lparr> state = Parsed, errors = Arr eleven_errors, uploadError = None,
       parsedData = None, validationStats = Some 11, fields_val = Some [''email''],
       fileName = None, uploadProgress = None \<rparr>"

section \<open>Properties\<close>

subsection \<open>Auxiliary facts\<close>

text \<open>A progress event changes nothing but \<open>uploadProgress\<close>.\<close>

lemma progress_frame: "\<exists>p. onUploadProgress ev s = s\<lparr> uploadProgress := p \<rparr>"
proof (cases "state s = Uploading")
  case True
  then have "onUploadProgress ev s =
      s\<lparr> uploadProgress := Some (math_round (js_quotient (loaded ev) (total ev))) \<rparr>"
    by (simp add: onUploadProgress_def Let_def)
  then show ?thesis ..
next
  case False
  then have "onUploadProgress ev s = s\<lparr> uploadProgress := uploadProgress s \<rparr>"
    by (simp add: onUploadProgress_def)
  then show ?thesis ..
qed

lemma progress_events_frame:
  "\<exists>p. foldl (\<lambda>t ev. onUploadProgress ev t) s evs = s\<lparr> uploadProgress := p \<rparr>"
proof (induction evs arbitrary: s)
  case Nil
  have "s = s\<lparr> uploadProgress := uploadProgress s \<rparr>" by simp
  then show ?case by (metis foldl_Nil)
next
  case (Cons ev evs)
  obtain p where p: "onUploadProgress ev s = s\<lparr> uploadProgress := p \<rparr>"
    using progress_frame by blast
  obtain q where "foldl (\<lambda>t ev. onUploadProgress ev t) (s\<lparr> uploadProgress := p \<rparr>) evs
      = s\<lparr> uploadProgress := p \<rparr>\<lparr> uploadProgress := q \<rparr>"
    using Cons.IH by blast
  then have "foldl (\<lambda>t ev. onUploadProgress ev t) s (ev # evs) = s\<lparr> uploadProgress := q \<rparr>"
    using p by simp
  then show ?case ..
qed

text \<open>
  During an upload every progress event is stored: after a run of them \<open>uploadProgress\<close>
  is that of the last one.
\<close>

lemma progress_events_uploading:
  assumes "state s = Uploading"
  shows "foldl (\<lambda>t ev. onUploadProgress ev t) s evs =
           s\<lparr> uploadProgress :=
                (if evs = [] then uploadProgress s
                 else Some (math_round (js_quotient (loaded (last evs)) (total (last evs))))) \<rparr>"
proof (induction evs rule: rev_induct)
  case Nil
  show ?case by simp
next
  case (snoc ev evs)
  have "foldl (\<lambda>t ev. onUploadProgress ev t) s (evs @ [ev]) =
          onUploadProgress ev (foldl (\<lambda>t ev. onUploadProgress ev t) s evs)"
    by simp
  also have "\<dots> = onUploadProgress ev (s\<lparr> uploadProgress :=
                (if evs = [] then uploadProgress s
                 else Some (math_round (js_quotient (loaded (last evs)) (total (last evs))))) \<rparr>)"
    by (simp only: snoc.IH)
  also have "\<dots> = s\<lparr> uploadProgress :=
                Some (math_round (js_quotient (loaded ev) (total ev))) \<rparr>"
    using assms by (simp add: onUploadProgress_def)
  finally show ?case by simp
qed

text \<open>\<open>Math.round\<close> of a quotient between 0 and 1 is 0 below one half and 1 from there on.\<close>

lemma floor_half_0: "(0::rat) \<le> q \<Longrightarrow> q < 1 / 2 \<Longrightarrow> \<lfloor>q + 1 / 2\<rfloor> = 0"
  by linarith

lemma floor_half_1: "(1::rat) / 2 \<le> q \<Longrightarrow> q \<le> 1 \<Longrightarrow> \<lfloor>q + 1 / 2\<rfloor> = 1"
  by linarith

lemma math_round_unit:
  assumes "0 < t" and "l \<le> t"
  shows "math_round (js_quotient l t) = (if 2 * l < t then Num 0 else Num 1)"
proof -
  have t: "(0::rat) < of_nat t" using assms(1) by simp
  show ?thesis
  proof (cases "2 * l < t")
    case True
    then have "(of_nat (2 * l) :: rat) < of_nat t" by (simp only: of_nat_less_iff)
    then have "(of_nat l / of_nat t :: rat) < 1 / 2"
      using t by (simp add: field_simps)
    moreover have "(0::rat) \<le> of_nat l / of_nat t" by simp
    ultimately have "\<lfloor>(of_nat l / of_nat t :: rat) + 1 / 2\<rfloor> = 0"
      by (intro floor_half_0)
    then show ?thesis using True assms(1) by (simp add: math_round_def js_quotient_def)
  next
    case False
    then have "(of_nat t :: rat) \<le> of_nat (2 * l)" by (simp only: of_nat_le_iff not_less)
    then have "(1::rat) / 2 \<le> of_nat l / of_nat t"
      using t by (simp add: field_simps)
    moreover have "(of_nat l :: rat) \<le> of_nat t" using assms(2) by (simp only: of_nat_le_iff)
    then have "(of_nat l / of_nat t :: rat) \<le> 1"
      using t by (simp add: field_simps)
    ultimately have "\<lfloor>(of_nat l / of_nat t :: rat) + 1 / 2\<rfloor> = 1"
      by (intro floor_half_1)
    then show ?thesis using False assms(1) by (simp add: math_round_def js_quotient_def)
  qed
qed

text \<open>No reachable idle session carries an upload error.\<close>

lemma idle_no_uploadError: "reachable s \<Longrightarrow> state s = Idle \<Longrightarrow> uploadError s = None"
proof (induction rule: reachable.induct)
  case (constructed initialError)
  then show ?case by (simp add: initial_def)
next
  case (picked s acceptedFiles rejectedFiles)
  then show ?case by (simp add: onPickCSV_begin_def split: if_splits)
next
  case (parse_settled s r)
  then show ?case by (simp add: onPickCSV_resume_def split: if_splits)
next
  case (deleted s)
  then show ?case by (simp add: onDelete_def)
next
  case (save_begun s)
  then show ?case by (simp add: onSave_begin_def)
next
  case (progressed s progressEvent)
  then show ?case by (simp add: onUploadProgress_def Let_def split: if_splits)
next
  case (save_settled s outcome s')
  then show ?case
    by (auto simp: onSave_settled_def onSave_try_def onSave_resolved_def onSave_catch_def
        split: upload_outcome.splits thrown_value.splits)
next
  case (save_threw s outcome e s')
  then show ?case
    by (auto simp: onSave_settled_def onSave_try_def onSave_catch_def
        split: upload_outcome.splits thrown_value.splits)
qed

text \<open>A session that arises from parsing a file and deleting the result.\<close>

lemma reachable_after_delete:
  "reachable (onDelete (onPickCSV_resume result_a (fst (onPickCSV_begin [file_a] [] session_0))))"
  by (intro reachable.intros)

subsection \<open>Required columns gate the upload\<close>

text \<open>
  Claim C1. Whatever the column configuration and the session state: if a column with
  \<open>required = true\<close> has an \<open>inputName\<close> for which \<open>columnIsPresent\<close> is not \<open>true\<close> (the
  name is missing from the fields of the parsed header, or there are no fields at all),
  then \<open>canSaveAndContinue\<close> is false and a click on the upload button does not call
  \<open>onSave\<close>. Nothing is assumed about the rows that parsed as valid.
\<close>

theorem required_column_missing_blocks_upload:
  assumes "c \<in> set columnConfig" and "required c"
    and "columnIsPresent s (inputName c) \<noteq> Some True"
  shows "\<not> canSaveAndContinue columnConfig s \<and> onClick columnConfig s = None"
  using assms
  by (auto simp: canSaveAndContinue_def onClick_def requiredColumns_def list_all_iff)

theorem required_column_missing_blocks_upload_witness:
  "email_column \<in> set [email_column]
   \<and> required email_column
   \<and> columnIsPresent session_without_email (inputName email_column) = Some False
   \<and> \<not> canSaveAndContinue [email_column] session_without_email
   \<and> onClick [email_column] session_without_email = None"
  using required_column_missing_blocks_upload
          [of email_column "[email_column]" session_without_email]
  by (simp add: columnIsPresent_def)

subsection \<open>A failed upload\<close>

text \<open>
  Claim C2 as stated fails, at two inputs, both on the session that holds file A parsed.
  When \<open>onUpload\<close> rejects with \<open>null\<close> or \<open>undefined\<close>, reading \<open>e.message\<close> in the
  \<open>catch\<close> block throws: the error leaves \<open>onSave\<close> and the session stays in
  \<open>"uploading"\<close>. When it rejects with an \<open>Error\<close>, \<open>uploadError\<close> is not the only key
  that differs from the session \<open>onSave\<close> was called on: \<open>uploadProgress\<close>, \<open>undefined\<close>
  before, is 0.
\<close>

theorem failed_upload_counterexample:
  "onSave [] (Rejected NullOrUndefined) session_parsed_a
     = Inl (CannotReadMessage, onSave_begin session_parsed_a)
   \<and> state (onSave_begin session_parsed_a) = Uploading
   \<and> uploadProgress session_parsed_a = None
   \<and> onSave [] (Rejected (Thrown (Some ''Network Error''))) session_parsed_a
     = Inr (session_parsed_a\<lparr> uploadError := Some ''Network Error'',
                               uploadProgress := Some (Num 0) \<rparr>)"
  by (simp add: onSave_def onSave_settled_def onSave_try_def onSave_catch_def onSave_begin_def
      onPickCSV_resume_def onPickCSV_begin_def initial_def)

text \<open>
  Claim C2, amended. When \<open>onUpload\<close> raises any value other than \<open>null\<close> or \<open>undefined\<close>,
  after any progress events, \<open>onSave\<close> completes normally (no error leaves it), the session
  is back in \<open>"parsed"\<close>, \<open>uploadError\<close> is the raised value's \<open>message\<close> (\<open>undefined\<close>
  where it has none), and \<open>parsedData\<close>, \<open>fileName\<close>, \<open>validationStats\<close>, \<open>fields\<close> and
  \<open>errors\<close> are what they were when \<open>onSave\<close> was called. Besides \<open>state\<close> and
  \<open>uploadError\<close>, \<open>uploadProgress\<close> is written: it is 0 when no progress event came, else
  the rounded quotient of the last one.
\<close>

theorem failed_upload_returns_to_parsed:
  "onSave evs (Rejected (Thrown m)) s =
     Inr (s\<lparr> state := Parsed,
              uploadError := m,
              uploadProgress :=
                (if evs = [] then Some (Num 0)
                 else Some (math_round (js_quotient (loaded (last evs)) (total (last evs))))) \<rparr>)"
proof -
  have "state (onSave_begin s) = Uploading"
    by (simp add: onSave_begin_def)
  then have "foldl (\<lambda>t ev. onUploadProgress ev t) (onSave_begin s) evs =
      (onSave_begin s)\<lparr> uploadProgress :=
        (if evs = [] then uploadProgress (onSave_begin s)
         else Some (math_round (js_quotient (loaded (last evs)) (total (last evs))))) \<rparr>"
    by (rule progress_events_uploading)
  then show ?thesis
    by (simp add: onSave_def onSave_settled_def onSave_try_def onSave_catch_def onSave_begin_def)
qed

subsection \<open>Late progress events\<close>

text \<open>
  Claim C3. A progress event that arrives while the session is not in \<open>"uploading"\<close>
  leaves the whole session, \<open>uploadProgress\<close> included, as it was.
\<close>

theorem stale_progress_event_ignored:
  "state s \<noteq> Uploading \<Longrightarrow> onUploadProgress progressEvent s = s"
  by (simp add: onUploadProgress_def)

theorem stale_progress_event_ignored_witness:
  "state session_without_email \<noteq> Uploading
   \<and> onUploadProgress \<lparr> loaded = 3, total = 4 \<rparr> session_without_email
       = session_without_email"
  using stale_progress_event_ignored [of session_without_email "\<lparr> loaded = 3, total = 4 \<rparr>"]
  by simp

subsection \<open>A parse result that arrives late\<close>

text \<open>
  Claim C4 as stated fails. File A is selected, then file B while A is still being parsed;
  B's result arrives and the session holds B's outcome; A's result arrives last and
  replaces it: the session ends with A's rows and A's file name, not those of the latest
  selection.
\<close>

theorem late_parse_result_overwrites_counterexample:
  "state (onPickCSV_resume result_b
            (fst (onPickCSV_begin [file_b] []
               (fst (onPickCSV_begin [file_a] [] session_0))))) = Parsed
   \<and> parsedData (onPickCSV_resume result_b
            (fst (onPickCSV_begin [file_b] []
               (fst (onPickCSV_begin [file_a] [] session_0))))) = Some [row_b]
   \<and> parsedData (onPickCSV_resume result_a
         (onPickCSV_resume result_b
            (fst (onPickCSV_begin [file_b] []
               (fst (onPickCSV_begin [file_a] [] session_0)))))) = Some [row_a]
   \<and> fileName (onPickCSV_resume result_a
         (onPickCSV_resume result_b
            (fst (onPickCSV_begin [file_b] []
               (fst (onPickCSV_begin [file_a] [] session_0)))))) = Some ''a.csv''"
  by (simp add: onPickCSV_resume_def onPickCSV_begin_def initial_def)

text \<open>
  Claim C4, amended. The continuation of \<open>onPickCSV\<close> applies the parse result to whatever
  state the session is in, with no check of the state and no generation token: the state
  becomes \<open>"parsed"\<close>, \<open>validationStats\<close> and \<open>fields\<close> are the result's, \<open>errors\<close> is
  the result's errors when there are any (and then \<open>parsedData\<close> and \<open>fileName\<close> stay as
  they are), else \<open>parsedData\<close> and \<open>fileName\<close> are the result's and \<open>errors\<close> is empty
  or the no-valid-row message. Overlapping parses are kept away on the page only: the file
  picker is rendered exactly in the \<open>"idle"\<close> state, and a selection that starts a parse
  leaves a state in which the picker is not rendered.
\<close>

theorem parse_result_applied_in_any_state:
  "state (onPickCSV_resume r s) = Parsed
   \<and> validationStats (onPickCSV_resume r s) = pr_validationStats r
   \<and> fields_val (onPickCSV_resume r s) = pr_fields r
   \<and> errors (onPickCSV_resume r s) =
       (if pr_errors r \<noteq> [] then Arr (pr_errors r)
        else if pr_data r \<noteq> [] then Arr [] else Arr [no_valid_row_message])
   \<and> parsedData (onPickCSV_resume r s) =
       (if pr_errors r \<noteq> [] then parsedData s else Some (pr_data r))
   \<and> fileName (onPickCSV_resume r s) =
       (if pr_errors r \<noteq> [] then fileName s else pr_fileName r)
   \<and> (filePickerShown s \<longleftrightarrow> state s = Idle)
   \<and> (snd (onPickCSV_begin acceptedFiles rejectedFiles s) \<noteq> ReturnedEarly
        \<longrightarrow> \<not> filePickerShown (fst (onPickCSV_begin acceptedFiles rejectedFiles s)))"
  by (simp add: onPickCSV_resume_def onPickCSV_begin_def filePickerShown_def)

theorem parse_result_applied_in_any_state_witness:
  "snd (onPickCSV_begin [file_a] [] session_0) \<noteq> ReturnedEarly
   \<and> \<not> filePickerShown (fst (onPickCSV_begin [file_a] [] session_0))
   \<and> state (onPickCSV_resume result_a (onDelete session_0)) = Parsed
   \<and> parsedData (onPickCSV_resume result_a (onDelete session_0)) = Some [row_a]"
  using parse_result_applied_in_any_state [of result_a "onDelete session_0" "[file_a]" "[]"]
    parse_result_applied_in_any_state [of result_a session_0 "[file_a]" "[]"]
  by (simp add: onPickCSV_begin_def)

subsection \<open>Selecting files\<close>

text \<open>
  A selection with a rejected file, or with more than one file in all, reports the one
  message and starts no parse.
\<close>

lemma selection_guard:
  "rejectedFiles \<noteq> [] \<or> length acceptedFiles + length rejectedFiles > 1 \<Longrightarrow>
   onPickCSV_begin acceptedFiles rejectedFiles s =
     (s\<lparr> errors := Arr [''Please upload a single CSV file''] \<rparr>, ReturnedEarly)"
  by (auto simp: onPickCSV_begin_def single_file_message_def)

text \<open>
  Claim C5, at the input where the code departs from it: an empty selection (no accepted
  and no rejected file) passes the guard, so the session enters \<open>"parsing"\<close> with no error
  message and \<open>parseCSV\<close> is called with \<open>acceptedFiles[0]\<close>, which is \<open>undefined\<close>.
\<close>

theorem empty_selection_starts_parse:
  "onPickCSV_begin [] [] session_0 =
     (\<lparr> state = Parsing, errors = Null, uploadError = None, parsedData = None,
        validationStats = None, fields_val = None, fileName = None, uploadProgress = None \<rparr>,
      ParseCSVCalled None)"
  by (simp add: onPickCSV_begin_def initial_def first_file_def)

subsection \<open>The error list on the page\<close>

text \<open>
  Claim C6. When the session holds a list of errors, \<open>validationErrors\<close> is its first nine
  entries, so at most nine of its messages are rendered (they are rendered unless a
  non-empty \<open>uploadError\<close> is shown in their place); \<open>rest\<close> is the length of the list
  minus the number of those entries, and the overflow line is rendered exactly when the
  list is longer than nine, with that count.
\<close>

theorem first_nine_errors_and_overflow_count:
  assumes "errors s = Arr es"
  shows "validationErrors s = Arr (take 9 es)
       \<and> length (take 9 es) \<le> 9
       \<and> error_divs s =
           Inr (case uploadError s of
                  None \<Rightarrow> take 9 es
                | Some u \<Rightarrow> if u \<noteq> [] then [u] else take 9 es)
       \<and> rest s = Some (int (length es) - int (length (take 9 es)))
       \<and> overflow_line s = (if 9 < length es then Some (int (length es) - 9) else None)"
  using assms
  by (auto simp: validationErrors_def error_divs_def render_errors_def rest_def
      allErrorLength_def visibleErrors_def overflow_line_def min_def split: option.splits)

theorem first_nine_errors_and_overflow_count_witness:
  "errors session_with_eleven_errors = Arr eleven_errors
   \<and> error_divs session_with_eleven_errors =
       Inr [''e1'', ''e2'', ''e3'', ''e4'', ''e5'', ''e6'', ''e7'', ''e8'', ''e9'']
   \<and> overflow_line session_with_eleven_errors = Some 2"
  using first_nine_errors_and_overflow_count [of session_with_eleven_errors eleven_errors]
  by simp

subsection \<open>The stored upload progress\<close>

text \<open>
  While the session is uploading, an event with \<open>0 < total\<close> and \<open>loaded \<le> total\<close> stores
  the rounded quotient: 0 below one half, 1 from there on.
\<close>

lemma progress_stored_rounded:
  assumes "state s = Uploading" and "0 < total ev" and "loaded ev \<le> total ev"
  shows "uploadProgress (onUploadProgress ev s) =
           Some (if 2 * loaded ev < total ev then Num 0 else Num 1)"
  using assms by (simp add: onUploadProgress_def math_round_unit)

text \<open>
  Claim C7, at the input where the code departs from it: during an upload the event
  \<open>{loaded: 25, total: 100}\<close> has the quotient \<open>1/4\<close>, but \<open>Math.round\<close> makes the stored
  \<open>uploadProgress\<close> 0, and the page shows 0 percent.
\<close>

theorem progress_quarter_stored_as_zero:
  "js_quotient 25 100 = Num (1 / 4)
   \<and> uploadProgress (onUploadProgress \<lparr> loaded = 25, total = 100 \<rparr> (onSave_begin session_0))
       = Some (Num 0)
   \<and> progress_percent (onUploadProgress \<lparr> loaded = 25, total = 100 \<rparr> (onSave_begin session_0))
       = Some (Num 0)"
proof -
  have q: "js_quotient 25 100 = Num (1 / 4)"
    by (simp add: js_quotient_def)
  have r: "math_round (js_quotient 25 100) = Num 0"
    using math_round_unit [of 100 25] by simp
  have p: "onUploadProgress \<lparr> loaded = 25, total = 100 \<rparr> (onSave_begin session_0)
      = (onSave_begin session_0)\<lparr> uploadProgress := Some (Num 0) \<rparr>"
    using r by (simp add: onUploadProgress_def onSave_begin_def)
  show ?thesis
    unfolding p using q by (simp add: progress_percent_def onSave_begin_def)
qed

subsection \<open>A parse without errors\<close>

text \<open>
  Claim C8. When the parse result has no errors, the session's \<open>errors\<close> is the single
  message \<open>"Please upload at least one valid row."\<close> if and only if the result has no row;
  when it has a row, \<open>errors\<close> is the empty list and \<open>parsedData\<close> is the result's rows.
\<close>

theorem no_valid_rows_iff_data_empty:
  assumes "pr_errors r = []"
  shows "(errors (onPickCSV_resume r s) = Arr [no_valid_row_message] \<longleftrightarrow> pr_data r = [])
       \<and> (pr_data r \<noteq> [] \<longrightarrow>
            errors (onPickCSV_resume r s) = Arr [] \<and>
            parsedData (onPickCSV_resume r s) = Some (pr_data r))
       \<and> no_valid_row_message = ''Please upload at least one valid row.''"
  using assms by (simp add: onPickCSV_resume_def no_valid_row_message_def)

theorem no_valid_rows_iff_data_empty_witness:
  "pr_errors result_a = []
   \<and> pr_data result_a \<noteq> []
   \<and> errors (onPickCSV_resume result_a (fst (onPickCSV_begin [file_a] [] session_0))) = Arr []
   \<and> parsedData (onPickCSV_resume result_a (fst (onPickCSV_begin [file_a] [] session_0)))
       = Some [row_a]"
  using no_valid_rows_iff_data_empty
          [of result_a "fst (onPickCSV_begin [file_a] [] session_0)"]
  by simp

subsection \<open>What a new selection resets\<close>

text \<open>
  Claim C9 as stated fails. File A is parsed and uploaded, with a progress event
  \<open>{loaded: 4, total: 4}\<close>; the session is idle again. File B is then selected and its
  parse starts: the session still holds A's \<open>fileName\<close> and the \<open>uploadProgress\<close> of A's
  upload.
\<close>

theorem earlier_fileName_survives_new_selection:
  "state (onSave_resolved (onUploadProgress \<lparr> loaded = 4, total = 4 \<rparr> (onSave_begin
      (onPickCSV_resume result_a (fst (onPickCSV_begin [file_a] [] session_0)))))) = Idle
   \<and> snd (onPickCSV_begin [file_b] []
       (onSave_resolved (onUploadProgress \<lparr> loaded = 4, total = 4 \<rparr> (onSave_begin
          (onPickCSV_resume result_a (fst (onPickCSV_begin [file_a] [] session_0)))))))
       = ParseCSVCalled (Some file_b)
   \<and> fileName (fst (onPickCSV_begin [file_b] []
       (onSave_resolved (onUploadProgress \<lparr> loaded = 4, total = 4 \<rparr> (onSave_begin
          (onPickCSV_resume result_a (fst (onPickCSV_begin [file_a] [] session_0))))))))
       = Some ''a.csv''
   \<and> uploadProgress (fst (onPickCSV_begin [file_b] []
       (onSave_resolved (onUploadProgress \<lparr> loaded = 4, total = 4 \<rparr> (onSave_begin
          (onPickCSV_resume result_a (fst (onPickCSV_begin [file_a] [] session_0))))))))
       = Some (Num 1)"
proof -
  have r: "math_round (js_quotient 4 4) = Num 1"
    using math_round_unit [of 4 4] by simp
  show ?thesis
    using r
    by (simp add: onPickCSV_begin_def onPickCSV_resume_def onSave_begin_def onSave_resolved_def
        onUploadProgress_def initial_def first_file_def)
qed

text \<open>
  Claim C9, amended. A selection that starts a parse sets \<open>state\<close> to \<open>"parsing"\<close> and
  resets \<open>errors\<close>, \<open>parsedData\<close>, \<open>validationStats\<close> and \<open>fields\<close> to \<open>null\<close> before
  \<open>parseCSV\<close> runs. It does not write \<open>uploadError\<close>, \<open>fileName\<close> or \<open>uploadProgress\<close>;
  \<open>uploadError\<close> is nevertheless \<open>null\<close> after it in every session that can arise and
  shows the file picker, because no such session carries an upload error.
\<close>

theorem new_selection_resets_parse_outcome:
  assumes "onPickCSV_begin acceptedFiles rejectedFiles s = (s', ParseCSVCalled f)"
  shows "state s' = Parsing
       \<and> errors s' = Null
       \<and> parsedData s' = None
       \<and> validationStats s' = None
       \<and> fields_val s' = None
       \<and> uploadError s' = uploadError s
       \<and> fileName s' = fileName s
       \<and> uploadProgress s' = uploadProgress s
       \<and> (reachable s \<and> filePickerShown s \<longrightarrow> uploadError s' = None)"
proof -
  have s': "s' = s\<lparr> errors := Null, parsedData := None, validationStats := None,
                    fields_val := None, state := Parsing \<rparr>"
    using assms by (simp add: onPickCSV_begin_def split: if_splits)
  have "reachable s \<and> filePickerShown s \<longrightarrow> uploadError s = None"
    using idle_no_uploadError by (auto simp: filePickerShown_def)
  then show ?thesis using s' by simp
qed

theorem new_selection_resets_parse_outcome_witness:
  "onPickCSV_begin [file_b] []
      (onDelete (onPickCSV_resume result_a (fst (onPickCSV_begin [file_a] [] session_0))))
     = (\<lparr> state = Parsing, errors = Null, uploadError = None, parsedData = None,
          validationStats = None, fields_val = None, fileName = Some ''a.csv'',
          uploadProgress = None \<rparr>,
        ParseCSVCalled (Some file_b))
   \<and> reachable (onDelete (onPickCSV_resume result_a (fst (onPickCSV_begin [file_a] [] session_0))))
   \<and> filePickerShown
        (onDelete (onPickCSV_resume result_a (fst (onPickCSV_begin [file_a] [] session_0))))"
proof -
  have run: "onPickCSV_begin [file_b] []
      (onDelete (onPickCSV_resume result_a (fst (onPickCSV_begin [file_a] [] session_0))))
     = (\<lparr> state = Parsing, errors = Null, uploadError = None, parsedData = None,
          validationStats = None, fields_val = None, fileName = Some ''a.csv'',
          uploadProgress = None \<rparr>,
        ParseCSVCalled (Some file_b))"
    by (simp add: onPickCSV_begin_def onPickCSV_resume_def onDelete_def initial_def
        first_file_def)
  have shown: "filePickerShown
        (onDelete (onPickCSV_resume result_a (fst (onPickCSV_begin [file_a] [] session_0))))"
    by (simp add: filePickerShown_def onDelete_def)
  from new_selection_resets_parse_outcome [OF run] reachable_after_delete shown
  have "uploadError \<lparr> state = Parsing, errors = Null, uploadError = None, parsedData = None,
          validationStats = None, fields_val = None, fileName = Some ''a.csv'',
          uploadProgress = None \<rparr> = (None :: string option)"
    by simp
  with run reachable_after_delete shown show ?thesis by simp
qed

subsection \<open>A successful upload\<close>

text \<open>
  Claim C10. When \<open>onUpload\<close> resolves, after any progress events, \<open>onSave\<close> completes with
  the session in \<open>"idle"\<close> and \<open>errors\<close>, \<open>uploadError\<close>, \<open>parsedData\<close>,
  \<open>validationStats\<close> and \<open>fields\<close> all \<open>null\<close>. The upload button is then not rendered,
  and a request built from that session carries no data: the rows cannot be uploaded again
  without a new parse.
\<close>

theorem successful_upload_clears_session:
  "\<exists>s'. onSave evs Resolved s = Inr s'
     \<and> state s' = Idle
     \<and> errors s' = Null
     \<and> uploadError s' = None
     \<and> parsedData s' = None
     \<and> validationStats s' = None
     \<and> fields_val s' = None
     \<and> \<not> uploadButtonShown s'
     \<and> data (upload_request_of (onSave_begin s')) = None"
proof -
  obtain p where "foldl (\<lambda>t ev. onUploadProgress ev t) (onSave_begin s) evs
      = (onSave_begin s)\<lparr> uploadProgress := p \<rparr>"
    using progress_events_frame by blast
  then have "onSave evs Resolved s =
      Inr (s\<lparr> state := Idle, errors := Null, uploadError := None, parsedData := None,
              validationStats := None, fields_val := None, uploadProgress := p \<rparr>)"
    by (simp add: onSave_def onSave_settled_def onSave_try_def onSave_resolved_def
        onSave_begin_def)
  then show ?thesis
    by (simp add: uploadButtonShown_def upload_request_of_def onSave_begin_def)
qed

end
